theory Spec2Isabelle
  imports Main "HOL-Library.Word" "HOL-Library.Signed_Division"
begin

section \<open>The Stoic examples: data model\<close>

text \<open>
  The repository holds two C++ files, \<^verbatim>\<open>before.cpp\<close> and \<^verbatim>\<open>after.cpp\<close>: thirteen
  snippets of unsafe code and their corrected counterparts. The embedding below follows
  the functions that compute something.

  C++ \<^verbatim>\<open>int\<close> is a 32-bit two's complement integer: a \<open>32 word\<close>, compared with the
  signed orders \<open>\<le>s\<close> and \<open><s\<close>; its arithmetic is taken as the machine computes it
  (modulo \<open>2 ^ 32\<close>). The C++ standard leaves a signed overflow undefined; where a
  statement depends on the absence of overflow, it says so.
  \<^verbatim>\<open>unsigned char\<close> is an \<open>8 word\<close> with the unsigned order.
  \<^verbatim>\<open>size_t\<close> values (sizes and indices of vectors) are natural numbers.
\<close>

type_synonym cpp_int = "32 word"

text \<open>\<^verbatim>\<open>typedef unsigned char StepCount;\<close> (after.cpp, FIX 12).\<close>

type_synonym StepCount = "8 word"

text \<open>
  What the C++ standard leaves undefined and the examples talk about: an access to a
  vector outside its range, an integer division by zero or one whose quotient does not
  fit the type, and a write through a null pointer.
\<close>

datatype ub = OutOfBounds | DivisionByZero | DivisionOverflow | NullDereference

text \<open>
  \<^verbatim>\<open>std::vector<T>::operator[]\<close>: unchecked in C++, so the model says where it leaves
  the vector.
\<close>

definition vec_index :: "'a list \<Rightarrow> nat \<Rightarrow> ub + 'a" where
  "vec_index v i = (if i < length v then Inr (v ! i) else Inl OutOfBounds)"

subsection \<open>FIX 2: generic functions instead of function-like macros\<close>

text \<open>
  \<^verbatim>\<open>template<typename T> inline T max_of(T a, T b) { return (a > b) ? a : b; }\<close>
  \<^verbatim>\<open>template<typename T> inline T square(T x) { return x * x; }\<close>
\<close>

definition max_of :: "'a::linorder \<Rightarrow> 'a \<Rightarrow> 'a" where
  "max_of a b = (if a > b then a else b)"

definition square :: "'a::times \<Rightarrow> 'a" where
  "square x = x * x"

subsection \<open>FIX 5: the owning container\<close>

text \<open>
  \<^verbatim>\<open>Container\<close> holds \<^verbatim>\<open>std::vector<std::unique_ptr<Item>> items\<close>; \<open>'p\<close> is the
  type of the pointers stored. \<^verbatim>\<open>add\<close> is \<^verbatim>\<open>push_back\<close>. \<^verbatim>\<open>get(int index)\<close> is
  \<^verbatim>\<open>items[index].get()\<close>: the \<^verbatim>\<open>int\<close> is converted to the vector's \<^verbatim>\<open>size_t\<close>
  (64 bits, sign-extended, so that \<open>-1\<close> becomes \<open>2 ^ 64 - 1\<close>) and the vector is
  indexed without a check.
\<close>

definition Container_add :: "'p list \<Rightarrow> 'p \<Rightarrow> 'p list" where
  "Container_add items item = items @ [item]"

definition int_to_size_t :: "cpp_int \<Rightarrow> nat" where
  "int_to_size_t index = unat (scast index :: 64 word)"

definition Container_get :: "'p list \<Rightarrow> cpp_int \<Rightarrow> ub + 'p" where
  "Container_get items index = vec_index items (int_to_size_t index)"

subsection \<open>FIX 9: the container with documented preconditions\<close>

text \<open>
  \<^verbatim>\<open>SafeContainer<T>\<close> holds \<^verbatim>\<open>std::vector<T> data\<close>; the functions take the vector.
  \<^verbatim>\<open>at\<close> is \<^verbatim>\<open>data[index]\<close> and \<^verbatim>\<open>front\<close> is \<^verbatim>\<open>data.front()\<close>, both unchecked.
  \<^verbatim>\<open>get(size_t index)\<close> checks the index before it reads; the reference it returns is
  modelled by the element read.
\<close>

definition SafeContainer_at :: "'a list \<Rightarrow> nat \<Rightarrow> ub + 'a" where
  "SafeContainer_at data index = vec_index data index"

definition SafeContainer_front :: "'a list \<Rightarrow> ub + 'a" where
  "SafeContainer_front data = vec_index data 0"

definition SafeContainer_empty :: "'a list \<Rightarrow> bool" where
  "SafeContainer_empty data = (data = [])"

definition SafeContainer_size :: "'a list \<Rightarrow> nat" where
  "SafeContainer_size data = length data"

definition SafeContainer_get :: "'a list \<Rightarrow> nat \<Rightarrow> ub + 'a option" where
  "SafeContainer_get data index =
     (if index \<ge> length data then Inr None
      else case vec_index data index of Inl e \<Rightarrow> Inl e | Inr x \<Rightarrow> Inr (Some x))"

text \<open>
  \<^verbatim>\<open>SafeContainer<T>\<close> is a template: \<open>T\<close> is any type with the operations the member
  functions use, and they are parameters of the model. \<^verbatim>\<open>T{}\<close> is \<open>T_zero\<close>, \<^verbatim>\<open>+=\<close> is
  \<open>T_add\<close>, \<^verbatim>\<open>/\<close> between two \<open>T\<close> is \<open>T_div\<close>, which says where the division is
  undefined, and \<^verbatim>\<open>static_cast<T>\<close> of a \<^verbatim>\<open>size_t\<close> is \<open>T_of_size\<close>. before.cpp divides
  a \<open>T\<close> by a \<^verbatim>\<open>size_t\<close> and returns the quotient as a \<open>T\<close>: \<open>T_div_size\<close>.
\<close>

record 'a arith =
  T_zero :: 'a
  T_add :: "'a \<Rightarrow> 'a \<Rightarrow> 'a"
  T_div :: "'a \<Rightarrow> 'a \<Rightarrow> ub + 'a"
  T_of_size :: "nat \<Rightarrow> 'a"
  T_div_size :: "'a \<Rightarrow> nat \<Rightarrow> ub + 'a"

text \<open>
  The unsigned integer types of \<open>LENGTH('w)\<close> bits (\<^verbatim>\<open>unsigned char\<close>,
  \<^verbatim>\<open>std::uint16_t\<close>, \<^verbatim>\<open>unsigned\<close>, \<^verbatim>\<open>std::uint64_t\<close>): arithmetic and conversions are
  modulo \<open>2 ^ LENGTH('w)\<close>; a \<open>T\<close> converts to \<^verbatim>\<open>size_t\<close> with its value.
\<close>

definition unsigned_arith :: "'w::len word arith" where
  "unsigned_arith =
     \<lparr>T_zero = 0,
      T_add = (\<lambda>a b. a + b),
      T_div = (\<lambda>a b. if b = 0 then Inl DivisionByZero else Inr (a div b)),
      T_of_size = of_nat,
      T_div_size = (\<lambda>a n. if n = 0 then Inl DivisionByZero else Inr (of_nat (unat a div n)))\<rparr>"

text \<open>
  \<^verbatim>\<open>int\<close>: the division truncates towards zero, and is undefined for a zero divisor
  and for \<^verbatim>\<open>INT_MIN / -1\<close> (the machine traps on both). An \<^verbatim>\<open>int\<close> converts to
  \<^verbatim>\<open>size_t\<close> by sign extension.
\<close>

definition int_arith :: "cpp_int arith" where
  "int_arith =
     \<lparr>T_zero = 0,
      T_add = (\<lambda>a b. a + b),
      T_div = (\<lambda>a b. if b = 0 then Inl DivisionByZero
                       else if a = - (2 ^ 31) \<and> b = - 1 then Inl DivisionOverflow
                       else Inr (word_of_int (sint a sdiv sint b))),
      T_of_size = of_nat,
      T_div_size = (\<lambda>a n. if n = 0 then Inl DivisionByZero
                            else Inr (of_nat (int_to_size_t a div n)))\<rparr>"

text \<open>
  \<^verbatim>\<open>average()\<close>:
  \<^verbatim>\<open>if (data.empty()) { return std::nullopt; }\<close>
  \<^verbatim>\<open>T sum = T{};\<close>
  \<^verbatim>\<open>for (const auto& item : data) sum += item;\<close>
  \<^verbatim>\<open>return sum / static_cast<T>(data.size());\<close>
\<close>

definition SafeContainer_average :: "'a arith \<Rightarrow> 'a list \<Rightarrow> ub + 'a option" where
  "SafeContainer_average T data =
     (if data = [] then Inr None
      else
        let sum = fold (\<lambda>item sum. T_add T sum item) data (T_zero T)
        in case T_div T sum (T_of_size T (length data)) of
             Inl e \<Rightarrow> Inl e
           | Inr q \<Rightarrow> Inr (Some q))"



text \<open>
  What goes to \<^verbatim>\<open>std::cout\<close>: the values sent with \<^verbatim>\<open><<\<close>, in order.
\<close>

datatype out_item = Out_int cpp_int | Out_text string | Out_number nat | Out_endl

text \<open>
  \<^verbatim>\<open>processIndexSafe(v, index)\<close>: \<^verbatim>\<open>if (index < v.size()) { std::cout << v[index]; }\<close>.
  The function takes what \<^verbatim>\<open>std::cout\<close> holds and returns what it holds afterwards.
\<close>

definition processIndexSafe :: "cpp_int list \<Rightarrow> nat \<Rightarrow> out_item list \<Rightarrow> ub + out_item list" where
  "processIndexSafe v index out =
     (if index < length v
      then case vec_index v index of Inl e \<Rightarrow> Inl e | Inr x \<Rightarrow> Inr (out @ [Out_int x])
      else Inr out)"

text \<open>
  \<^verbatim>\<open>log_message(message, loc)\<close>:
  \<^verbatim>\<open>std::cout << loc.file_name() << ":" << loc.line() << " [" << loc.function_name()\<close>
  \<^verbatim>\<open>          << "] " << message << std::endl;\<close>
\<close>

definition log_message :: "string \<Rightarrow> string \<Rightarrow> nat \<Rightarrow> string \<Rightarrow> out_item list \<Rightarrow> out_item list" where
  "log_message message file_name line function_name out =
     out @ [Out_text file_name, Out_text '':'', Out_number line, Out_text '' ['',
            Out_text function_name, Out_text ''] '', Out_text message, Out_endl]"

subsection \<open>FIX 8: compile-time evaluation\<close>

text \<open>
  \<^verbatim>\<open>constexpr int factorial(int n) { return n <= 1 ? 1 : n * factorial(n - 1); }\<close>
  The recursion is defined without a termination argument: a call that does not return
  is \<open>None\<close>.
\<close>

partial_function (option) factorial :: "cpp_int \<Rightarrow> cpp_int option" where
  "factorial n =
     (if n \<le>s 1 then Some 1
      else Option.bind (factorial (n - 1)) (\<lambda>r. Some (n * r)))"

text \<open>
  \<^verbatim>\<open>getName()\<close> returns \<^verbatim>\<open>"hello"\<close>, \<^verbatim>\<open>getNumbers()\<close> returns \<^verbatim>\<open>{1, 2, 3}\<close>, and
  \<^verbatim>\<open>loadConfig(path)\<close> returns \<^verbatim>\<open>parseConfigFile(path)\<close>, which is 0.
\<close>

definition getName :: string where
  "getName = ''hello''"

definition getNumbers :: "cpp_int list" where
  "getNumbers = [1, 2, 3]"

definition parseConfigFile :: "string \<Rightarrow> cpp_int" where
  "parseConfigFile path = 0"

definition loadConfig :: "string \<Rightarrow> cpp_int" where
  "loadConfig path = parseConfigFile path"

subsection \<open>Snippet 10: the global map of counters\<close>

text \<open>
  \<^verbatim>\<open>std::map<std::string, int> counters;\<close> is a global of both files. Every function
  takes the map and returns it as it leaves it.

  \<^verbatim>\<open>find\<close> reads; \<^verbatim>\<open>operator[]\<close> inserts a value-initialised entry (0) when the key
  is missing and gives access to the entry.
\<close>

type_synonym counter_map = "string \<rightharpoonup> cpp_int"

definition map_find :: "counter_map \<Rightarrow> string \<Rightarrow> cpp_int option" where
  "map_find m name = m name"

definition map_subscript :: "counter_map \<Rightarrow> string \<Rightarrow> cpp_int \<times> counter_map" where
  "map_subscript m name =
     (case m name of None \<Rightarrow> (0, m(name \<mapsto> 0)) | Some v \<Rightarrow> (v, m))"

text \<open>before.cpp: \<^verbatim>\<open>counters[name]++;\<close>\<close>

definition incrementCounter :: "counter_map \<Rightarrow> string \<Rightarrow> counter_map" where
  "incrementCounter m name =
     (let (v, m') = map_subscript m name in m'(name \<mapsto> v + 1))"

text \<open>before.cpp: \<^verbatim>\<open>return counters[name];\<close>\<close>

definition getCounter :: "counter_map \<Rightarrow> string \<Rightarrow> cpp_int \<times> counter_map" where
  "getCounter m name = map_subscript m name"

text \<open>
  after.cpp:
  \<^verbatim>\<open>auto it = counters.find(name);\<close>
  \<^verbatim>\<open>if (it != counters.end()) { it->second++; } else { counters[name] = 1; }\<close>
\<close>

definition incrementCounterSafe :: "counter_map \<Rightarrow> string \<Rightarrow> counter_map" where
  "incrementCounterSafe m name =
     (case map_find m name of
        Some v \<Rightarrow> m(name \<mapsto> v + 1)
      | None \<Rightarrow> (let (v, m') = map_subscript m name in m'(name \<mapsto> 1)))"

text \<open>
  after.cpp:
  \<^verbatim>\<open>auto it = counters.find(name);\<close>
  \<^verbatim>\<open>if (it != counters.end()) { return it->second; } return 0;\<close>
\<close>

definition getCounterSafe :: "counter_map \<Rightarrow> string \<Rightarrow> cpp_int \<times> counter_map" where
  "getCounterSafe m name =
     (case map_find m name of Some v \<Rightarrow> (v, m) | None \<Rightarrow> (0, m))"

text \<open>after.cpp: \<^verbatim>\<open>counters[name] = value;\<close>\<close>

definition setCounter :: "counter_map \<Rightarrow> string \<Rightarrow> cpp_int \<Rightarrow> counter_map" where
  "setCounter m name v = (let (old, m') = map_subscript m name in m'(name \<mapsto> v))"

subsection \<open>Snippet 11: the intentional copy\<close>

text \<open>
  \<^verbatim>\<open>struct GameState { int score; std::vector<int> moves;\<close>
  \<^verbatim>\<open>  void applyMove(int m) { moves.push_back(m); score += m; } };\<close>
\<close>

record GameState =
  score :: cpp_int
  moves :: "cpp_int list"

definition applyMove :: "GameState \<Rightarrow> cpp_int \<Rightarrow> GameState" where
  "applyMove g m = (let g = g\<lparr>moves := moves g @ [m]\<rparr> in g\<lparr>score := score g + m\<rparr>)"

text \<open>
  Whether a call changes the caller's object depends on what the callee's \<^verbatim>\<open>state\<close>
  names, so the objects live in a store: the list of the \<^verbatim>\<open>GameState\<close> objects alive,
  an object's address being its position. \<^verbatim>\<open>applyMove\<close> is a member function: it
  changes the object \<^verbatim>\<open>this\<close> points to.

  \<^verbatim>\<open>bool tryMoveSafe(GameState state, int move)\<close> takes its argument by value: the call
  creates a new object, copy-constructed from the caller's object at address \<open>s\<close>;
  the body works on the new object, which is destroyed when the call returns.
  \<^verbatim>\<open>state.applyMove(move); if (state.score < 0) { return false; } return true;\<close>
  The call is \<open>None\<close> when \<open>s\<close> is not the address of an object.
\<close>

definition applyMove_at :: "GameState list \<Rightarrow> nat \<Rightarrow> cpp_int \<Rightarrow> GameState list" where
  "applyMove_at objs this m = objs[this := applyMove (objs ! this) m]"

definition tryMoveSafe ::
  "GameState list \<Rightarrow> nat \<Rightarrow> cpp_int \<Rightarrow> (bool \<times> GameState list) option" where
  "tryMoveSafe objs s move =
     (if s < length objs then
        let state = length objs;
            objs = objs @ [objs ! s];
            objs = applyMove_at objs state move;
            result = (if score (objs ! state) <s 0 then False else True)
        in Some (result, take state objs)
      else None)"

subsection \<open>Snippet 12: documented type limits\<close>

text \<open>
  \<^verbatim>\<open>void planRouteSafe(StepCount maxSteps) {\<close>
  \<^verbatim>\<open>  for (StepCount i = 0; i < maxSteps; ++i) { } }\<close>
  The loop is defined without a termination argument (a loop that runs forever is
  \<open>None\<close>); the body is empty, and the model counts the iterations. \<^verbatim>\<open>++i\<close> on an
  \<^verbatim>\<open>unsigned char\<close> wraps from 255 to 0.
\<close>

partial_function (option) planRouteSafe_loop ::
  "StepCount \<Rightarrow> StepCount \<Rightarrow> nat \<Rightarrow> nat option" where
  "planRouteSafe_loop maxSteps i iterations =
     (if i < maxSteps then planRouteSafe_loop maxSteps (i + 1) (Suc iterations)
      else Some iterations)"

definition planRouteSafe :: "StepCount \<Rightarrow> nat option" where
  "planRouteSafe maxSteps = planRouteSafe_loop maxSteps 0 0"

subsection \<open>The unsafe twins of before.cpp\<close>

text \<open>
  \<^verbatim>\<open>Container\<close> of before.cpp holds \<^verbatim>\<open>Item* items\<close> and \<^verbatim>\<open>int count\<close>; an address is
  counted in items. \<^verbatim>\<open>add\<close> has an empty body; \<^verbatim>\<open>get(index)\<close> is \<^verbatim>\<open>items + index\<close>.
\<close>

definition Container_get_before :: "int \<Rightarrow> cpp_int \<Rightarrow> int" where
  "Container_get_before items index = items + sint index"

text \<open>
  \<^verbatim>\<open>constexpr int compute(int x) { return x * 2; }\<close> and
  \<^verbatim>\<open>int getUserInput() { return 42; }\<close>.
\<close>

definition compute :: "cpp_int \<Rightarrow> cpp_int" where
  "compute x = x * 2"

definition getUserInput :: cpp_int where
  "getUserInput = 42"

text \<open>
  \<^verbatim>\<open>UnsafeContainer<T>\<close> holds \<^verbatim>\<open>T* data\<close> and \<^verbatim>\<open>size_t count\<close>; the functions take
  the array \<^verbatim>\<open>data\<close> points to, and \<^verbatim>\<open>count\<close>. \<^verbatim>\<open>at\<close> is \<^verbatim>\<open>data[index]\<close>, \<^verbatim>\<open>front\<close> is
  \<^verbatim>\<open>data[0]\<close>, and \<^verbatim>\<open>average\<close> is
  \<^verbatim>\<open>T sum = T{}; for (size_t i = 0; i < count; ++i) sum += data[i]; return sum / count;\<close>
\<close>

definition UnsafeContainer_at :: "'a list \<Rightarrow> nat \<Rightarrow> ub + 'a" where
  "UnsafeContainer_at data index = vec_index data index"

definition UnsafeContainer_front :: "'a list \<Rightarrow> ub + 'a" where
  "UnsafeContainer_front data = vec_index data 0"

function UnsafeContainer_sum :: "'a arith \<Rightarrow> 'a list \<Rightarrow> nat \<Rightarrow> nat \<Rightarrow> 'a \<Rightarrow> ub + 'a" where
  "UnsafeContainer_sum T data count i acc =
     (if i < count
      then case vec_index data i of
             Inl e \<Rightarrow> Inl e
           | Inr item \<Rightarrow> UnsafeContainer_sum T data count (Suc i) (T_add T acc item)
      else Inr acc)"
  by pat_completeness auto
termination
  by (relation "measure (\<lambda>(T, data, count, i, acc). count - i)") auto

definition UnsafeContainer_average :: "'a arith \<Rightarrow> 'a list \<Rightarrow> nat \<Rightarrow> ub + 'a" where
  "UnsafeContainer_average T data count =
     (case UnsafeContainer_sum T data count 0 (T_zero T) of
        Inl e \<Rightarrow> Inl e
      | Inr acc \<Rightarrow> T_div_size T acc count)"

text \<open>\<^verbatim>\<open>processIndex(v, index)\<close>: \<^verbatim>\<open>std::cout << v[index];\<close>, unchecked.\<close>

definition processIndex :: "cpp_int list \<Rightarrow> nat \<Rightarrow> out_item list \<Rightarrow> ub + out_item list" where
  "processIndex v index out =
     (case vec_index v index of Inl e \<Rightarrow> Inl e | Inr x \<Rightarrow> Inr (out @ [Out_int x]))"

text \<open>
  \<^verbatim>\<open>tryMove\<close> of before.cpp has the body of \<^verbatim>\<open>tryMoveSafe\<close>, and takes its argument by
  value as well.
\<close>

definition tryMove ::
  "GameState list \<Rightarrow> nat \<Rightarrow> cpp_int \<Rightarrow> (bool \<times> GameState list) option" where
  "tryMove objs s move =
     (if s < length objs then
        let state = length objs;
            objs = objs @ [objs ! s];
            objs = applyMove_at objs state move;
            result = (if score (objs ! state) <s 0 then False else True)
        in Some (result, take state objs)
      else None)"

text \<open>
  \<^verbatim>\<open>void planRoute(StepCount maxSteps) { for (int i = 0; i < 1000; ++i) { } }\<close>
\<close>

partial_function (option) planRoute_loop :: "cpp_int \<Rightarrow> nat \<Rightarrow> nat option" where
  "planRoute_loop i iterations =
     (if i <s 1000 then planRoute_loop (i + 1) (Suc iterations) else Some iterations)"

definition planRoute :: "StepCount \<Rightarrow> nat option" where
  "planRoute maxSteps = planRoute_loop 0 0"

subsection \<open>The helper declarations\<close>

text \<open>
  Both files end with helpers, outside the snippets:
  \<^verbatim>\<open>bool someCondition() { return false; }\<close>,
  \<^verbatim>\<open>int expensiveComputation() { return 42; }\<close>, and \<^verbatim>\<open>process(int*)\<close>, \<^verbatim>\<open>doFeatureX()\<close>,
  \<^verbatim>\<open>doAlternative()\<close> with empty bodies (\<^verbatim>\<open>parseConfigFile\<close> and \<^verbatim>\<open>getUserInput\<close> are
  above).
\<close>

definition someCondition :: bool where
  "someCondition = False"

definition expensiveComputation :: cpp_int where
  "expensiveComputation = 42"

subsection \<open>The globals and the operations of the snippets\<close>

text \<open>
  The variables at namespace scope that are not \<^verbatim>\<open>const\<close> or \<^verbatim>\<open>constexpr\<close>, in
  after.cpp:
  \<^verbatim>\<open>std::array<char, buffer_size> buffer;\<close> (FIX 8; 1024 characters, zero at start),
  \<^verbatim>\<open>std::map<std::string, int> counters;\<close> (FIX 10) and
  \<^verbatim>\<open>double radius = 1.0;\<close> (the helper declarations; kept as the 64 bits of the
  double). before.cpp has \<^verbatim>\<open>counters\<close> and \<^verbatim>\<open>radius\<close>. Both files write to the
  stream \<^verbatim>\<open>std::cout\<close> of the library; \<open>cout\<close> is what has been written to it.
\<close>

record globals =
  buffer :: "8 word list"
  counters :: counter_map
  radius :: "64 word"
  cout :: "out_item list"

definition initial_globals :: globals where
  "initial_globals =
     \<lparr>buffer = replicate 1024 0, counters = Map.empty, radius = 0x3FF0000000000000,
      cout = []\<rparr>"

text \<open>
  \<^verbatim>\<open>processReference(int& value)\<close> is \<^verbatim>\<open>value = 42;\<close>, and
  \<^verbatim>\<open>processPointerDocumented(int* ptr)\<close> and \<^verbatim>\<open>processPointer(int* ptr)\<close> are
  \<^verbatim>\<open>*ptr = 42;\<close>. What they change is decided by the argument. The \<^verbatim>\<open>int\<close> objects of
  the two files are the values of the counters map and the objects of the caller, so
  the argument is either the expression \<^verbatim>\<open>counters[name]\<close> (or its address), evaluated
  when the call is made, or a variable of the caller, which the model carries with its
  value. A null pointer is \<open>None\<close>. The functions return the argument as it is after
  the call, and the counters map as they leave it.
\<close>

datatype int_lvalue = Counters_subscript string | Caller_variable cpp_int

definition assign :: "int_lvalue \<Rightarrow> cpp_int \<Rightarrow> counter_map \<Rightarrow> int_lvalue \<times> counter_map" where
  "assign place v m =
     (case place of
        Counters_subscript name \<Rightarrow>
          (let (old, m') = map_subscript m name in (Counters_subscript name, m'(name \<mapsto> v)))
      | Caller_variable old \<Rightarrow> (Caller_variable v, m))"

definition processReference :: "int_lvalue \<Rightarrow> counter_map \<Rightarrow> int_lvalue \<times> counter_map" where
  "processReference val m = assign val 42 m"

definition processPointerDocumented ::
  "int_lvalue option \<Rightarrow> counter_map \<Rightarrow> ub + int_lvalue \<times> counter_map" where
  "processPointerDocumented ptr m =
     (case ptr of None \<Rightarrow> Inl NullDereference | Some place \<Rightarrow> Inr (assign place 42 m))"

definition processPointer ::
  "int_lvalue option \<Rightarrow> counter_map \<Rightarrow> ub + int_lvalue \<times> counter_map" where
  "processPointer ptr m =
     (case ptr of None \<Rightarrow> Inl NullDereference | Some place \<Rightarrow> Inr (assign place 42 m))"

text \<open>What an operation gives back to its caller.\<close>

datatype 'a result =
    R_void
  | R_undefined ub
  | R_value 'a
  | R_int cpp_int
  | R_bool bool
  | R_size nat
  | R_string string
  | R_ints "cpp_int list"
  | R_items "nat list"
  | R_pointer "ub + nat"
  | R_address int
  | R_element "ub + 'a"
  | R_average "ub + 'a"
  | R_optional "ub + 'a option"
  | R_returned "cpp_int option"
  | R_place int_lvalue
  | R_state GameState
  | R_tried "(bool \<times> GameState list) option"
  | R_iterations "nat option"

text \<open>
  The functions of after.cpp, each with its arguments. An operation is a function
  together with the values of its arguments: an argument passed by value or read
  through a \<^verbatim>\<open>const\<close> reference is part of the operation, and so is the object a member
  function is called on. The templates are taken at one type \<open>T\<close>. Snippets 4 and 7
  declare types only. \<^verbatim>\<open>log_message\<close> and the helpers belong to no numbered snippet:
  their category is 0. The constructors are \<^verbatim>\<open>ResourceManager(n)\<close> (an array of \<open>n\<close>
  and \<^verbatim>\<open>size = n\<close>), \<^verbatim>\<open>Container()\<close> (no items) and \<^verbatim>\<open>DataProcessor(n)\<close>
  (\<^verbatim>\<open>name = n\<close>).
\<close>

datatype 'a after_operation =
    ResourceManager_new nat
  | Container_new
  | DataProcessor_new string
  | SomeCondition
  | Process
  | ExpensiveComputation
  | DoFeatureX
  | DoAlternative
  | ParseConfigFile string
  | ResourceManager_process nat
  | SafeFunction
  | Max_of 'a 'a
  | Square 'a
  | NoMacroProblems
  | UseConstants
  | Container_add_op "nat list" nat
  | Container_get_op "nat list" cpp_int
  | ConditionalCode
  | Log_message string string nat string
  | GetName
  | GetNumbers
  | LoadConfig string
  | Factorial cpp_int
  | At "'a list" nat
  | Front "'a list"
  | Average "'a list"
  | Get "'a list" nat
  | Empty "'a list"
  | Size "'a list"
  | ProcessIndexSafe "cpp_int list" nat
  | ProcessReference int_lvalue
  | ProcessPointerDocumented "int_lvalue option"
  | IncrementCounterSafe string
  | GetCounterSafe string
  | SetCounter string cpp_int
  | ApplyMove GameState cpp_int
  | TryMoveSafe "GameState list" nat cpp_int
  | PlanRouteSafe StepCount
  | PlatformSpecificInitSafe


text \<open>
  Running an operation in a state of the globals gives its result and the globals as
  it leaves them. The bodies that name no global and take no reference leave the state
  alone: \<^verbatim>\<open>process()\<close> (\<^verbatim>\<open>if (size == 0) { return; }\<close>), \<^verbatim>\<open>safeFunction\<close>,
  \<^verbatim>\<open>noMacroProblems\<close>, \<^verbatim>\<open>conditionalCode\<close> and \<^verbatim>\<open>platformSpecificInitSafe\<close> work on
  locals and return nothing. \<^verbatim>\<open>useConstants\<close> reads \<^verbatim>\<open>radius\<close> into a local product and
  returns nothing.
\<close>

fun exec_after ::
  "'a::{linorder,times} arith \<Rightarrow> 'a after_operation \<Rightarrow> globals \<Rightarrow> 'a result \<times> globals" where
  "exec_after T (ResourceManager_new n) g = (R_size n, g)"
| "exec_after T Container_new g = (R_items [], g)"
| "exec_after T (DataProcessor_new n) g = (R_string n, g)"
| "exec_after T SomeCondition g = (R_bool someCondition, g)"
| "exec_after T Process g = (R_void, g)"
| "exec_after T ExpensiveComputation g = (R_int expensiveComputation, g)"
| "exec_after T DoFeatureX g = (R_void, g)"
| "exec_after T DoAlternative g = (R_void, g)"
| "exec_after T (ParseConfigFile path) g = (R_int (parseConfigFile path), g)"
| "exec_after T (ResourceManager_process n) g = (R_void, g)"
| "exec_after T SafeFunction g = (R_void, g)"
| "exec_after T (Max_of a b) g = (R_value (max_of a b), g)"
| "exec_after T (Square x) g = (R_value (square x), g)"
| "exec_after T NoMacroProblems g = (R_void, g)"
| "exec_after T UseConstants g = (R_void, g)"
| "exec_after T (Container_add_op items item) g = (R_items (Container_add items item), g)"
| "exec_after T (Container_get_op items index) g = (R_pointer (Container_get items index), g)"
| "exec_after T ConditionalCode g = (R_void, g)"
| "exec_after T (Log_message message file_name line function_name) g =
     (R_void, g\<lparr>cout := log_message message file_name line function_name (cout g)\<rparr>)"
| "exec_after T GetName g = (R_string getName, g)"
| "exec_after T GetNumbers g = (R_ints getNumbers, g)"
| "exec_after T (LoadConfig path) g = (R_int (loadConfig path), g)"
| "exec_after T (Factorial n) g = (R_returned (factorial n), g)"
| "exec_after T (At data index) g = (R_element (SafeContainer_at data index), g)"
| "exec_after T (Front data) g = (R_element (SafeContainer_front data), g)"
| "exec_after T (Average data) g = (R_optional (SafeContainer_average T data), g)"
| "exec_after T (Get data index) g = (R_optional (SafeContainer_get data index), g)"
| "exec_after T (Empty data) g = (R_bool (SafeContainer_empty data), g)"
| "exec_after T (Size data) g = (R_size (SafeContainer_size data), g)"
| "exec_after T (ProcessIndexSafe v index) g =
     (case processIndexSafe v index (cout g) of
        Inl e \<Rightarrow> (R_undefined e, g)
      | Inr out \<Rightarrow> (R_void, g\<lparr>cout := out\<rparr>))"
| "exec_after T (ProcessReference val) g =
     (let (place, m) = processReference val (counters g)
      in (R_place place, g\<lparr>counters := m\<rparr>))"
| "exec_after T (ProcessPointerDocumented ptr) g =
     (case processPointerDocumented ptr (counters g) of
        Inl e \<Rightarrow> (R_undefined e, g)
      | Inr (place, m) \<Rightarrow> (R_place place, g\<lparr>counters := m\<rparr>))"
| "exec_after T (IncrementCounterSafe name) g =
     (R_void, g\<lparr>counters := incrementCounterSafe (counters g) name\<rparr>)"
| "exec_after T (GetCounterSafe name) g =
     (let (v, m) = getCounterSafe (counters g) name in (R_int v, g\<lparr>counters := m\<rparr>))"
| "exec_after T (SetCounter name v) g =
     (R_void, g\<lparr>counters := setCounter (counters g) name v\<rparr>)"
| "exec_after T (ApplyMove s m) g = (R_state (applyMove s m), g)"
| "exec_after T (TryMoveSafe objs s move) g = (R_tried (tryMoveSafe objs s move), g)"
| "exec_after T (PlanRouteSafe maxSteps) g = (R_iterations (planRouteSafe maxSteps), g)"
| "exec_after T PlatformSpecificInitSafe g = (R_void, g)"

text \<open>
  The functions of before.cpp. \<^verbatim>\<open>leakyFunction\<close>, \<^verbatim>\<open>macroProblems\<close> and
  \<^verbatim>\<open>runtimeFunction\<close> work on locals and return nothing; \<^verbatim>\<open>Container::add\<close> has an
  empty body. The constructors are \<^verbatim>\<open>ResourceManager(n)\<close> (\<^verbatim>\<open>new int[n]\<close> and
  \<^verbatim>\<open>size = n\<close>), \<^verbatim>\<open>Container()\<close> (\<^verbatim>\<open>items(nullptr), count(0)\<close>) and
  \<^verbatim>\<open>DataProcessor(n)\<close>; the destructors of \<^verbatim>\<open>ResourceManager\<close> and \<^verbatim>\<open>Container\<close> free
  the array the object holds.
\<close>

datatype 'a before_operation =
    ResourceManager_new_before nat
  | ResourceManager_delete
  | Container_new_before
  | Container_delete
  | DataProcessor_new_before string
  | SomeCondition_before
  | Process_before
  | ExpensiveComputation_before
  | DoFeatureX_before
  | DoAlternative_before
  | GetUserInput
  | ResourceManager_process_before nat
  | LeakyFunction
  | MacroProblems
  | UseConstants_before
  | Container_add_before int
  | Container_get_before_op int cpp_int
  | ConditionalCode_before
  | GetName_before
  | GetNumbers_before
  | Compute cpp_int
  | RuntimeFunction
  | At_before "'a list" nat
  | Front_before "'a list"
  | Average_before "'a list" nat
  | ProcessIndex "cpp_int list" nat
  | ProcessPointer "int_lvalue option"
  | IncrementCounter string
  | GetCounter string
  | ApplyMove_before GameState cpp_int
  | TryMove "GameState list" nat cpp_int
  | PlanRoute StepCount
  | PlatformSpecificInit


fun exec_before ::
  "'a arith \<Rightarrow> 'a before_operation \<Rightarrow> globals \<Rightarrow> 'a result \<times> globals" where
  "exec_before T (ResourceManager_new_before n) g = (R_size n, g)"
| "exec_before T ResourceManager_delete g = (R_void, g)"
| "exec_before T Container_new_before g = (R_size 0, g)"
| "exec_before T Container_delete g = (R_void, g)"
| "exec_before T (DataProcessor_new_before n) g = (R_string n, g)"
| "exec_before T SomeCondition_before g = (R_bool someCondition, g)"
| "exec_before T Process_before g = (R_void, g)"
| "exec_before T ExpensiveComputation_before g = (R_int expensiveComputation, g)"
| "exec_before T DoFeatureX_before g = (R_void, g)"
| "exec_before T DoAlternative_before g = (R_void, g)"
| "exec_before T GetUserInput g = (R_int getUserInput, g)"
| "exec_before T (ResourceManager_process_before n) g = (R_void, g)"
| "exec_before T LeakyFunction g = (R_void, g)"
| "exec_before T MacroProblems g = (R_void, g)"
| "exec_before T UseConstants_before g = (R_void, g)"
| "exec_before T (Container_add_before item) g = (R_void, g)"
| "exec_before T (Container_get_before_op items index) g =
     (R_address (Container_get_before items index), g)"
| "exec_before T ConditionalCode_before g = (R_void, g)"
| "exec_before T GetName_before g = (R_string getName, g)"
| "exec_before T GetNumbers_before g = (R_ints getNumbers, g)"
| "exec_before T (Compute x) g = (R_int (compute x), g)"
| "exec_before T RuntimeFunction g = (R_void, g)"
| "exec_before T (At_before data index) g = (R_element (UnsafeContainer_at data index), g)"
| "exec_before T (Front_before data) g = (R_element (UnsafeContainer_front data), g)"
| "exec_before T (Average_before data count) g =
     (R_average (UnsafeContainer_average T data count), g)"
| "exec_before T (ProcessIndex v index) g =
     (case processIndex v index (cout g) of
        Inl e \<Rightarrow> (R_undefined e, g)
      | Inr out \<Rightarrow> (R_void, g\<lparr>cout := out\<rparr>))"
| "exec_before T (ProcessPointer ptr) g =
     (case processPointer ptr (counters g) of
        Inl e \<Rightarrow> (R_undefined e, g)
      | Inr (place, m) \<Rightarrow> (R_place place, g\<lparr>counters := m\<rparr>))"
| "exec_before T (IncrementCounter name) g =
     (R_void, g\<lparr>counters := incrementCounter (counters g) name\<rparr>)"
| "exec_before T (GetCounter name) g =
     (let (v, m) = getCounter (counters g) name in (R_int v, g\<lparr>counters := m\<rparr>))"
| "exec_before T (ApplyMove_before s m) g = (R_state (applyMove s m), g)"
| "exec_before T (TryMove objs s move) g = (R_tried (tryMove objs s move), g)"
| "exec_before T (PlanRoute maxSteps) g = (R_iterations (planRoute maxSteps), g)"
| "exec_before T PlatformSpecificInit g = (R_void, g)"

text \<open>
  An operation belongs to one of the two files. The two files are two programs; the
  model lets their operations meet in one state of the globals, which asks more of the
  statements below, not less.
\<close>

datatype 'a operation = Before "'a before_operation" | After "'a after_operation"


fun exec :: "'a::{linorder,times} arith \<Rightarrow> 'a operation \<Rightarrow> globals \<Rightarrow> 'a result \<times> globals" where
  "exec T (Before b) g = exec_before T b g"
| "exec T (After a) g = exec_after T a g"





section \<open>Facts about machine integers\<close>

lemma sint32_bounds: "- (2 ^ 31) \<le> sint (w :: cpp_int) \<and> sint w < 2 ^ 31"
  using sint_range_size [of w] by (simp add: word_size)

lemma sle_one_iff: "(n :: cpp_int) \<le>s 1 \<longleftrightarrow> sint n \<le> 1"
  by (simp add: word_sle_eq)

lemma sint_pred:
  assumes "1 < sint (n :: cpp_int)"
  shows "sint (n - 1) = sint n - 1"
proof -
  have "- (2 ^ 31) \<le> sint n - 1" and "sint n - 1 < 2 ^ 31"
    using sint32_bounds [of n] assms by simp_all
  then have "signed_take_bit 31 (sint n - 1) = sint n - 1"
    by (rule signed_take_bit_int_eq_self)
  then show ?thesis by (simp add: sint_word_diff)
qed

lemma int_to_size_t_mod: "int_to_size_t index = nat (sint index mod 2 ^ 64)"
proof -
  have "unat (scast index :: 64 word) = nat (uint (word_of_int (sint index) :: 64 word))"
    by (simp only: scast_eq unat_eq_nat_uint)
  also have "\<dots> = nat (sint index mod 2 ^ LENGTH(64))"
    by (simp only: uint_word_of_int)
  finally show ?thesis by (simp add: int_to_size_t_def)
qed

lemma int_to_size_t_nonneg:
  assumes "0 \<le> sint index"
  shows "int_to_size_t index = nat (sint index)"
proof -
  have "sint index < 2 ^ 64"
    using sint32_bounds [of index] by simp
  with assms have "sint index mod 2 ^ 64 = sint index"
    by (rule mod_pos_pos_trivial)
  then show ?thesis by (simp only: int_to_size_t_mod)
qed

lemma int_to_size_t_neg:
  assumes "sint index < 0"
  shows "int_to_size_t index = nat (2 ^ 64 + sint index)"
proof -
  have lo: "0 \<le> 2 ^ 64 + sint index" and hi: "2 ^ 64 + sint index < 2 ^ 64"
    using sint32_bounds [of index] assms by simp_all
  have "sint index mod 2 ^ 64 = (2 ^ 64 + sint index) mod 2 ^ 64"
    by (simp only: mod_add_self1)
  also have "\<dots> = 2 ^ 64 + sint index"
    using lo hi by (rule mod_pos_pos_trivial)
  finally show ?thesis by (simp only: int_to_size_t_mod)
qed

lemma StepCount_bound: "unat (s :: StepCount) \<le> 255"
  using unsigned_less [of s, where 'a = nat] by simp

lemma StepCount_incr:
  assumes "i < (maxSteps :: StepCount)"
  shows "unat (i + 1) = Suc (unat i)"
proof -
  have "unat i < unat maxSteps"
    using assms by (simp only: word_less_nat_alt)
  moreover have "unat maxSteps \<le> 255" by (rule StepCount_bound)
  ultimately have "unat i + unat (1 :: StepCount) < 2 ^ LENGTH(8)" by simp
  then have "unat (i + 1) = unat i + unat (1 :: StepCount)"
    by (simp only: unat_add_lem [THEN iffD1])
  then show ?thesis by simp
qed

section \<open>FIX 2: max_of and square\<close>

text \<open>
  Claim C8. For all \<open>a\<close> and \<open>b\<close> of a linearly ordered type, \<^verbatim>\<open>max_of(a, b)\<close> is \<open>a\<close>
  when \<open>a > b\<close> and \<open>b\<close> otherwise, which is the maximum of the two; and
  \<^verbatim>\<open>square(x)\<close> is \<open>x * x\<close>.
\<close>

theorem max_of_square_correct:
  "(a > b \<longrightarrow> max_of a b = a) \<and> (\<not> a > b \<longrightarrow> max_of a b = b)
   \<and> max_of a b = max a b \<and> a \<le> max_of a b \<and> b \<le> max_of a b
   \<and> square x = x * x"
  by (auto simp: max_of_def square_def)

theorem max_of_square_correct_witness:
  "max_of (5 :: int) 3 = 5 \<and> max_of (3 :: int) 5 = 5 \<and> max_of (2 :: int) 2 = 2
   \<and> square (7 :: int) = 49"
  using max_of_square_correct [of "3 :: int" 5 "7 :: int"]
    max_of_square_correct [of "5 :: int" 3 "7 :: int"]
    max_of_square_correct [of "2 :: int" 2 "7 :: int"]
  by simp

section \<open>FIX 5: Container::get\<close>

lemma Container_get_oob_iff:
  "Container_get items index = Inl OutOfBounds \<longleftrightarrow> length items \<le> int_to_size_t index"
  by (simp add: Container_get_def vec_index_def)

lemma size_bound_int:
  assumes "length items < 2 ^ 63"
  shows "int (length items) < 2 ^ 63"
proof -
  have "int (length items) < int (2 ^ 63)"
    using assms by (simp only: of_nat_less_iff)
  then show ?thesis by simp
qed

lemma Container_get_negative:
  assumes len: "length items < 2 ^ 63" and neg: "sint index < 0"
  shows "Container_get items index = Inl OutOfBounds"
proof -
  have "int (length items) < 2 ^ 63"
    using len by (rule size_bound_int)
  moreover have "2 ^ 63 \<le> 2 ^ 64 + sint index"
    using sint32_bounds [of index] by simp
  ultimately have "int (length items) \<le> 2 ^ 64 + sint index"
    by linarith
  then have "length items \<le> nat (2 ^ 64 + sint index)"
    by linarith
  then show ?thesis
    by (simp only: Container_get_oob_iff int_to_size_t_neg [OF neg])
qed

text \<open>
  Claim C9. \<^verbatim>\<open>Container::get(index)\<close> of FIX 5 indexes without a check. Under the
  precondition \<open>0 \<le> index < number of items\<close> it returns the pointer stored at
  \<open>index\<close>. Without the precondition the access leaves the vector: for a vector of
  fewer than \<open>2 ^ 63\<close> items (every vector of pointers is), the access is out of bounds
  exactly when the precondition fails, and the index \<open>-1\<close> is always out of bounds.
\<close>

theorem Container_get_unchecked:
  "(0 \<le> sint index \<and> sint index < int (length items) \<longrightarrow>
      Container_get items index = Inr (items ! nat (sint index)))
   \<and> (length items < 2 ^ 63 \<longrightarrow>
        (Container_get items index = Inl OutOfBounds
           \<longleftrightarrow> \<not> (0 \<le> sint index \<and> sint index < int (length items))))
   \<and> (length items < 2 ^ 63 \<longrightarrow> Container_get items (- 1) = Inl OutOfBounds)"
proof (intro conjI impI)
  assume "0 \<le> sint index \<and> sint index < int (length items)"
  then show "Container_get items index = Inr (items ! nat (sint index))"
    by (simp add: Container_get_def vec_index_def int_to_size_t_nonneg nat_less_iff)
next
  assume len: "length items < 2 ^ 63"
  show "Container_get items index = Inl OutOfBounds
          \<longleftrightarrow> \<not> (0 \<le> sint index \<and> sint index < int (length items))"
  proof (cases "0 \<le> sint index")
    case True
    then have "length items \<le> int_to_size_t index \<longleftrightarrow> \<not> sint index < int (length items)"
      by (simp only: int_to_size_t_nonneg) linarith
    with True show ?thesis
      by (simp only: Container_get_oob_iff simp_thms)
  next
    case False
    then have "sint index < 0" by simp
    with len have "Container_get items index = Inl OutOfBounds"
      by (rule Container_get_negative)
    with False show ?thesis by simp
  qed
next
  assume len: "length items < 2 ^ 63"
  have "sint (- 1 :: cpp_int) < 0" by simp
  with len show "Container_get items (- 1) = Inl OutOfBounds"
    by (rule Container_get_negative)
qed

theorem Container_get_unchecked_witness:
  "Container_get [''p'', ''q''] 1 = Inr ''q''
   \<and> Container_get [''p'', ''q''] 2 = Inl OutOfBounds
   \<and> Container_get [''p'', ''q''] (- 1) = Inl OutOfBounds"
proof -
  have len: "length [''p'', ''q''] < 2 ^ 63" by simp
  note at1 = Container_get_unchecked [of 1 "[''p'', ''q'']"]
  note at2 = Container_get_unchecked [of 2 "[''p'', ''q'']"]
  have 1: "Container_get [''p'', ''q''] 1 = Inr ''q''"
    using at1 by simp
  have 2: "Container_get [''p'', ''q''] 2 = Inl OutOfBounds"
    using at2 len by simp
  have 3: "Container_get [''p'', ''q''] (- 1) = Inl OutOfBounds"
    using at2 len by blast
  from 1 2 3 show ?thesis by blast
qed

section \<open>FIX 8: factorial\<close>

lemma factorial_base: "n \<le>s 1 \<Longrightarrow> factorial n = Some 1"
  by (subst factorial.simps) simp

lemma factorial_step:
  "\<not> n \<le>s 1 \<Longrightarrow> factorial n = Option.bind (factorial (n - 1)) (\<lambda>r. Some (n * r))"
  by (subst factorial.simps) simp

lemma factorial_returns_upto:
  "sint n \<le> int k \<Longrightarrow> \<exists>y. factorial n = Some y"
proof (induction k arbitrary: n)
  case 0
  then have "n \<le>s 1" by (simp add: sle_one_iff)
  then show ?case by (simp add: factorial_base)
next
  case (Suc k)
  show ?case
  proof (cases "n \<le>s 1")
    case True
    then show ?thesis by (simp add: factorial_base)
  next
    case False
    then have big: "1 < sint n" by (simp add: sle_one_iff)
    then have "sint (n - 1) = sint n - 1" by (rule sint_pred)
    with Suc.prems have "sint (n - 1) \<le> int k" by simp
    then obtain y where "factorial (n - 1) = Some y"
      using Suc.IH by blast
    with False show ?thesis by (simp add: factorial_step)
  qed
qed

lemma factorial_returns: "\<exists>y. factorial n = Some y"
proof -
  have "sint n \<le> int (nat (sint n))" by simp
  then show ?thesis by (rule factorial_returns_upto)
qed

text \<open>
  Claim C10. \<^verbatim>\<open>factorial\<close> returns for every \<^verbatim>\<open>int\<close> argument, zero and the negative
  ones included: for \<open>n \<le> 1\<close> it returns 1; otherwise it calls itself on \<open>n - 1\<close>,
  which is smaller by exactly one (the subtraction does not wrap), and multiplies the
  result by \<open>n\<close>. \<^verbatim>\<open>factorial(5)\<close> is 120, as the \<^verbatim>\<open>static_assert\<close> says.
\<close>

theorem factorial_terminates:
  "(\<exists>y. factorial n = Some y)
   \<and> (n \<le>s 1 \<longrightarrow> factorial n = Some 1)
   \<and> (\<not> n \<le>s 1 \<longrightarrow> sint (n - 1) = sint n - 1 \<and> sint (n - 1) < sint n
         \<and> factorial n = map_option (\<lambda>r. n * r) (factorial (n - 1)))
   \<and> factorial 5 = Some 120"
proof (intro conjI impI)
  show "\<exists>y. factorial n = Some y" by (rule factorial_returns)
  show "factorial n = Some 1" if "n \<le>s 1" using that by (rule factorial_base)
  show "factorial 5 = Some 120"
    by (simp add: factorial_step factorial_base sle_one_iff)
next
  assume rec: "\<not> n \<le>s 1"
  then have "1 < sint n" by (simp add: sle_one_iff)
  then show "sint (n - 1) = sint n - 1" by (rule sint_pred)
  then show "sint (n - 1) < sint n" by simp
  show "factorial n = map_option (\<lambda>r. n * r) (factorial (n - 1))"
    using rec by (cases "factorial (n - 1)") (simp_all add: factorial_step)
qed

theorem factorial_terminates_witness:
  "factorial 0 = Some 1 \<and> factorial (- 3) = Some 1 \<and> factorial 1 = Some 1
   \<and> factorial 2 = Some 2 \<and> factorial 5 = Some 120"
proof -
  have 0: "factorial 0 = Some 1"
    using factorial_terminates [of 0] by (simp add: sle_one_iff)
  have 1: "factorial (- 3) = Some 1"
    using factorial_terminates [of "- 3"] by (simp add: sle_one_iff)
  have 2: "factorial 1 = Some 1"
    using factorial_terminates [of 1] by (simp add: sle_one_iff)
  have 3: "factorial 2 = Some 2"
    using factorial_terminates [of 2] 2 by (simp add: sle_one_iff)
  have 4: "factorial 5 = Some 120"
    using factorial_terminates [of 0] by blast
  from 0 1 2 3 4 show ?thesis by blast
qed

text \<open>
  Beyond 12 the product no longer fits 32 bits: the value below is \<open>13!\<close> modulo
  \<open>2 ^ 32\<close>. The call still returns.
\<close>

lemma factorial_13: "factorial 13 = Some 1932053504"
  by (simp add: factorial_step factorial_base sle_one_iff)

section \<open>FIX 9: SafeContainer\<close>

text \<open>
  Claim C4. For every content of the container and every index, \<^verbatim>\<open>get(index)\<close> returns
  \<^verbatim>\<open>nullopt\<close> exactly when \<open>index \<ge> size()\<close>, otherwise the element at position
  \<open>index\<close>; it never reads outside the vector.
\<close>

theorem SafeContainer_get_checked:
  "(SafeContainer_get data index = Inr None \<longleftrightarrow> index \<ge> SafeContainer_size data)
   \<and> (index < SafeContainer_size data \<longrightarrow>
        SafeContainer_get data index = Inr (Some (data ! index)))
   \<and> (\<forall>e. SafeContainer_get data index \<noteq> Inl e)"
  by (simp add: SafeContainer_get_def SafeContainer_size_def vec_index_def)

theorem SafeContainer_get_checked_witness:
  "SafeContainer_get [10, 20, 30 :: cpp_int] 1 = Inr (Some 20)
   \<and> SafeContainer_get [10, 20, 30 :: cpp_int] 3 = Inr None"
  using SafeContainer_get_checked [of "[10, 20, 30 :: cpp_int]" 1]
    SafeContainer_get_checked [of "[10, 20, 30 :: cpp_int]" 3]
  by (simp add: SafeContainer_size_def)

text \<open>The unchecked accessors, for contrast: they do leave the vector.\<close>

lemma SafeContainer_at_unchecked:
  "SafeContainer_at data index = Inl OutOfBounds \<longleftrightarrow> length data \<le> index"
  by (simp add: SafeContainer_at_def vec_index_def)

lemma SafeContainer_front_empty: "SafeContainer_front [] = Inl OutOfBounds"
  by (simp add: SafeContainer_front_def vec_index_def)

subsection \<open>average\<close>


lemma SafeContainer_average_nonempty:
  "data \<noteq> [] \<Longrightarrow> SafeContainer_average T data =
     (case T_div T (foldl (T_add T) (T_zero T) data) (T_of_size T (length data)) of
        Inl e \<Rightarrow> Inl e
      | Inr q \<Rightarrow> Inr (Some q))"
  by (simp add: SafeContainer_average_def foldl_conv_fold)



text \<open>
  At the unsigned types, as long as the number of elements fits \<open>T\<close>, the result is
  the sum of the elements (in \<open>T\<close>) divided by their number.
\<close>

lemma foldl_add_word: "foldl (\<lambda>a b. a + b) (a :: 'w::len word) data = a + sum_list data"
  by (induction data arbitrary: a) (simp_all add: add.assoc)

lemma SafeContainer_average_unsigned:
  assumes "data \<noteq> []" and "length data < 2 ^ LENGTH('w)"
  shows "SafeContainer_average unsigned_arith (data :: 'w::len word list)
           = Inr (Some (sum_list data div of_nat (length data)))"
proof -
  have "0 < length data" using assms(1) by simp
  then have "(of_nat (length data) :: 'w word) \<noteq> 0"
    using assms(2) by (simp add: of_nat_0 unat_of_nat word_eq_iff_unsigned [where 'a = nat])
  with assms(1) show ?thesis
    by (simp add: SafeContainer_average_nonempty unsigned_arith_def foldl_add_word)
qed

lemma SafeContainer_average_unsigned_example:
  "SafeContainer_average unsigned_arith [3, 4, 8 :: StepCount] = Inr (Some 5)"
  by (simp add: SafeContainer_average_nonempty unsigned_arith_def)

text \<open>At \<^verbatim>\<open>int\<close> the quotient is rounded towards zero.\<close>

lemma SafeContainer_average_int_example:
  "SafeContainer_average int_arith [- 3, - 4] = Inr (Some (- 3))"
  by (simp add: SafeContainer_average_nonempty int_arith_def signed_divide_int_def)

text \<open>
  The guard of \<^verbatim>\<open>average\<close> is on the empty vector only. On a vector of 256 elements of
  an 8-bit \<open>T\<close> the body would divide by the size converted to \<open>T\<close>, which is 0; no
  program brings a \<^verbatim>\<open>SafeContainer\<close> into such a state.
\<close>

lemma SafeContainer_average_body_at_256:
  "SafeContainer_average unsigned_arith (replicate 256 (1 :: StepCount)) = Inl DivisionByZero"
  by (simp add: SafeContainer_average_nonempty unsigned_arith_def)



section \<open>Snippet 10: counters\<close>

lemma incrementCounter_eq:
  "incrementCounter m name = m(name \<mapsto> (case m name of None \<Rightarrow> 1 | Some v \<Rightarrow> v + 1))"
  by (simp add: incrementCounter_def map_subscript_def split: option.split)

lemma incrementCounterSafe_eq:
  "incrementCounterSafe m name = m(name \<mapsto> (case m name of None \<Rightarrow> 1 | Some v \<Rightarrow> v + 1))"
  by (simp add: incrementCounterSafe_def map_find_def map_subscript_def split: option.split)

text \<open>
  Claim C1. For every state of the counters map and every name, \<^verbatim>\<open>incrementCounter\<close>
  (before.cpp) and \<^verbatim>\<open>incrementCounterSafe\<close> (after.cpp) leave the same map: a missing
  key ends mapped to 1, the value of a present key is incremented by 1, and every other
  key keeps what it had.
\<close>

theorem incrementCounterSafe_refines:
  "incrementCounterSafe m name = incrementCounter m name
   \<and> (m name = None \<longrightarrow> incrementCounterSafe m name name = Some 1)
   \<and> (\<forall>v. m name = Some v \<longrightarrow> incrementCounterSafe m name name = Some (v + 1))
   \<and> (\<forall>k. k \<noteq> name \<longrightarrow> incrementCounterSafe m name k = m k)"
  by (simp add: incrementCounter_eq incrementCounterSafe_eq)

theorem incrementCounterSafe_refines_witness:
  "incrementCounterSafe [''a'' \<mapsto> 4] ''a'' = incrementCounter [''a'' \<mapsto> 4] ''a''
   \<and> incrementCounterSafe [''a'' \<mapsto> 4] ''a'' ''a'' = Some 5
   \<and> incrementCounterSafe [''a'' \<mapsto> 4] ''b'' = incrementCounter [''a'' \<mapsto> 4] ''b''
   \<and> incrementCounterSafe [''a'' \<mapsto> 4] ''b'' ''b'' = Some 1
   \<and> incrementCounterSafe [''a'' \<mapsto> 4] ''b'' ''a'' = Some 4"
proof -
  let ?m = "[''a'' \<mapsto> 4] :: counter_map"
  note present = incrementCounterSafe_refines [of ?m "''a''"]
  note missing = incrementCounterSafe_refines [of ?m "''b''"]
  have 1: "incrementCounterSafe ?m ''a'' = incrementCounter ?m ''a''"
    by (rule present [THEN conjunct1])
  have 2: "incrementCounterSafe ?m ''a'' ''a'' = Some 5"
    using present [THEN conjunct2] by simp
  have 3: "incrementCounterSafe ?m ''b'' = incrementCounter ?m ''b''"
    by (rule missing [THEN conjunct1])
  have 4: "incrementCounterSafe ?m ''b'' ''b'' = Some 1"
    using missing [THEN conjunct2] by simp
  have 5: "incrementCounterSafe ?m ''b'' ''a'' = Some 4"
    using missing [THEN conjunct2] by simp
  from 1 2 3 4 5 show ?thesis by blast
qed

text \<open>
  Claim C2. For every state of the counters map and every name, \<^verbatim>\<open>getCounterSafe\<close>
  returns the value stored under the name when there is one and 0 otherwise, and leaves
  the map as it was. \<^verbatim>\<open>getCounter\<close> of before.cpp, on a missing key, returns 0 too but
  leaves a map with a new entry 0 under the name.
\<close>

theorem getCounterSafe_reads_only:
  "(\<forall>v. m name = Some v \<longrightarrow> fst (getCounterSafe m name) = v)
   \<and> (m name = None \<longrightarrow> fst (getCounterSafe m name) = 0)
   \<and> snd (getCounterSafe m name) = m
   \<and> (m name = None \<longrightarrow>
        getCounter m name = (0, m(name \<mapsto> 0)) \<and> snd (getCounter m name) \<noteq> m)"
proof -
  have "m(name \<mapsto> 0) \<noteq> m" if "m name = None"
  proof
    assume "m(name \<mapsto> 0) = m"
    then have "(m(name \<mapsto> 0)) name = m name" by (rule arg_cong)
    with that show False by simp
  qed
  then show ?thesis
    by (simp add: getCounterSafe_def getCounter_def map_find_def map_subscript_def
        split: option.split)
qed

theorem getCounterSafe_reads_only_witness:
  "getCounterSafe [''a'' \<mapsto> 4] ''a'' = (4, [''a'' \<mapsto> 4])
   \<and> getCounterSafe [''a'' \<mapsto> 4] ''b'' = (0, [''a'' \<mapsto> 4])
   \<and> getCounter [''a'' \<mapsto> 4] ''b'' = (0, [''a'' \<mapsto> 4, ''b'' \<mapsto> 0])
   \<and> snd (getCounter [''a'' \<mapsto> 4] ''b'') \<noteq> [''a'' \<mapsto> 4]"
proof -
  let ?m = "[''a'' \<mapsto> 4] :: counter_map"
  note present = getCounterSafe_reads_only [of ?m "''a''"]
  note missing = getCounterSafe_reads_only [of ?m "''b''"]
  have none: "?m ''b'' = None" by simp
  have 1: "getCounterSafe ?m ''a'' = (4, ?m)"
    using present by (simp add: prod_eq_iff)
  have 2: "getCounterSafe ?m ''b'' = (0, ?m)"
    using missing by (simp add: prod_eq_iff)
  have 3: "getCounter ?m ''b'' = (0, ?m(''b'' \<mapsto> 0))"
    using missing none by blast
  have 4: "snd (getCounter ?m ''b'') \<noteq> ?m"
    using missing none by blast
  from 1 2 3 4 show ?thesis by blast
qed

section \<open>Snippet 11: tryMoveSafe\<close>

lemma applyMove_simps [simp]:
  "score (applyMove g m) = score g + m" "moves (applyMove g m) = moves g @ [m]"
  by (simp_all add: applyMove_def)

text \<open>The member function does change the object it is called on.\<close>

lemma applyMove_at_mutates:
  "this < length objs \<Longrightarrow> applyMove_at objs this m ! this \<noteq> objs ! this"
proof
  assume "this < length objs" and "applyMove_at objs this m ! this = objs ! this"
  then have "applyMove (objs ! this) m = objs ! this"
    by (simp add: applyMove_at_def)
  then have "moves (applyMove (objs ! this) m) = moves (objs ! this)"
    by simp
  then show False by simp
qed

lemma sint_add_no_overflow:
  assumes "- (2 ^ 31) \<le> sint (a :: cpp_int) + sint b" and "sint a + sint b < 2 ^ 31"
  shows "sint (a + b) = sint a + sint b"
proof -
  from assms have "signed_take_bit 31 (sint a + sint b) = sint a + sint b"
    by (rule signed_take_bit_int_eq_self)
  then show ?thesis by (simp add: sint_word_ariths)
qed

text \<open>
  Claim C5. For every \<^verbatim>\<open>GameState\<close> \<open>s\<close> of the caller and every move \<open>m\<close>,
  \<^verbatim>\<open>tryMoveSafe(s, m)\<close> works on a copy: after the call every object of the caller, \<open>s\<close>
  with its score and its moves among them, is as before; and the call returns false
  exactly when \<^verbatim>\<open>s.score + m < 0\<close> (in \<^verbatim>\<open>int\<close> arithmetic, which is the integer sum
  whenever that sum fits an \<^verbatim>\<open>int\<close>).
\<close>

theorem tryMoveSafe_copy:
  "s < length objs \<Longrightarrow>
     tryMoveSafe objs s move = Some (\<not> (score (objs ! s) + move <s 0), objs)
     \<and> (- (2 ^ 31) \<le> sint (score (objs ! s)) + sint move
          \<and> sint (score (objs ! s)) + sint move < 2 ^ 31 \<longrightarrow>
         (score (objs ! s) + move <s 0 \<longleftrightarrow> sint (score (objs ! s)) + sint move < 0))"
proof (intro conjI impI)
  assume "s < length objs"
  then show "tryMoveSafe objs s move = Some (\<not> (score (objs ! s) + move <s 0), objs)"
    by (simp add: tryMoveSafe_def applyMove_at_def Let_def nth_append)
next
  assume "- (2 ^ 31) \<le> sint (score (objs ! s)) + sint move
          \<and> sint (score (objs ! s)) + sint move < 2 ^ 31"
  then have "sint (score (objs ! s) + move) = sint (score (objs ! s)) + sint move"
    by (simp add: sint_add_no_overflow)
  then show "score (objs ! s) + move <s 0 \<longleftrightarrow> sint (score (objs ! s)) + sint move < 0"
    by (simp add: word_sless_alt)
qed

theorem tryMoveSafe_copy_witness:
  "tryMoveSafe [\<lparr>score = 3, moves = [3]\<rparr>] 0 (- 5) = Some (False, [\<lparr>score = 3, moves = [3]\<rparr>])
   \<and> tryMoveSafe [\<lparr>score = 3, moves = [3]\<rparr>] 0 4 = Some (True, [\<lparr>score = 3, moves = [3]\<rparr>])"
proof -
  let ?objs = "[\<lparr>score = 3, moves = [3]\<rparr>]"
  have s: "0 < length ?objs" by simp
  have 1: "tryMoveSafe ?objs 0 (- 5) = Some (False, ?objs)"
    using tryMoveSafe_copy [OF s, of "- 5"] by simp
  have 2: "tryMoveSafe ?objs 0 4 = Some (True, ?objs)"
    using tryMoveSafe_copy [OF s, of 4] by simp
  from 1 2 show ?thesis by blast
qed

section \<open>Snippet 12: planRouteSafe\<close>

lemma planRouteSafe_loop_counts:
  "unat maxSteps - unat i = d \<Longrightarrow> unat i \<le> unat maxSteps \<Longrightarrow>
   planRouteSafe_loop maxSteps i k = Some (k + d)"
proof (induction d arbitrary: i k)
  case 0
  then have "\<not> i < maxSteps" by (simp add: word_less_nat_alt)
  then show ?case by (subst planRouteSafe_loop.simps) simp
next
  case (Suc d)
  then have less: "i < maxSteps" by (simp add: word_less_nat_alt)
  then have next_i: "unat (i + 1) = Suc (unat i)" by (rule StepCount_incr)
  with Suc.prems have "unat maxSteps - unat (i + 1) = d" and "unat (i + 1) \<le> unat maxSteps"
    by simp_all
  then have "planRouteSafe_loop maxSteps (i + 1) (Suc k) = Some (Suc k + d)"
    by (rule Suc.IH)
  with less show ?case by (subst planRouteSafe_loop.simps) simp
qed

text \<open>
  Claim C6. \<^verbatim>\<open>StepCount\<close> represents exactly the values 0 to 255, and for every
  \<^verbatim>\<open>maxSteps\<close> \<^verbatim>\<open>planRouteSafe\<close> returns after exactly \<^verbatim>\<open>maxSteps\<close> iterations of its loop,
  which is at most 255.
\<close>

theorem planRouteSafe_iterations:
  "((\<exists>s :: StepCount. unat s = k) \<longleftrightarrow> k \<le> 255)
   \<and> planRouteSafe maxSteps = Some (unat maxSteps)
   \<and> unat maxSteps \<le> 255"
proof (intro conjI)
  show "(\<exists>s :: StepCount. unat s = k) \<longleftrightarrow> k \<le> 255"
  proof
    assume "\<exists>s :: StepCount. unat s = k"
    then show "k \<le> 255" using StepCount_bound by blast
  next
    assume "k \<le> 255"
    then have "unat (of_nat k :: StepCount) = k"
      by (simp add: unat_of_nat)
    then show "\<exists>s :: StepCount. unat s = k" ..
  qed
  show "planRouteSafe maxSteps = Some (unat maxSteps)"
    using planRouteSafe_loop_counts [of maxSteps 0 "unat maxSteps" 0]
    by (simp add: planRouteSafe_def)
  show "unat maxSteps \<le> 255" by (rule StepCount_bound)
qed

theorem planRouteSafe_iterations_witness:
  "planRouteSafe 0 = Some 0 \<and> planRouteSafe 3 = Some 3 \<and> planRouteSafe 255 = Some 255"
  using planRouteSafe_iterations [of 0 0] planRouteSafe_iterations [of 0 3]
    planRouteSafe_iterations [of 0 255]
  by simp

section \<open>State shared between snippets\<close>






subsection \<open>The operations of after.cpp\<close>






subsection \<open>The operations of before.cpp\<close>






subsection \<open>Both files\<close>






text \<open>
  Within snippet 10 the state is shared, as it must be: a counter read after an
  increment is not the counter read before.
\<close>

lemma same_category_shares:
  "fst (exec unsigned_arith (After (GetCounterSafe ''x'') :: StepCount operation)
          (snd (exec unsigned_arith (After (IncrementCounterSafe ''x'')) initial_globals)))
     = R_int 1
   \<and> fst (exec unsigned_arith (After (GetCounterSafe ''x'') :: StepCount operation)
            initial_globals) = R_int 0"
  by (simp add: initial_globals_def getCounterSafe_def map_find_def incrementCounterSafe_eq)




end
